theory Spec2Isabelle
  imports Complex_Main
begin

section \<open>Values, exceptions and diagnostics\<close>

text \<open>
  The scoring core (\<^verbatim>\<open>function.py\<close>) receives a bag of loosely typed signals. A signal
  is \<^verbatim>\<open>None\<close>, an \<^verbatim>\<open>int\<close> (Python's unbounded integer; \<^verbatim>\<open>bool\<close> is a subclass with the
  values 0 and 1), a \<^verbatim>\<open>float\<close>, a \<^verbatim>\<open>str\<close>, or an object of any other type.

  A Python float is a finite number, a NaN or an infinity. Finite floats are modelled
  as real numbers: the rounding of binary floating point is not part of the model, the
  special values and the overflow of the conversion from \<^verbatim>\<open>int\<close> are.
\<close>

datatype pyfloat = Fin real | NaN | PosInf | NegInf

datatype pyval = PNone | PInt int | PFloat pyfloat | PStr string | POther

datatype exn = OverflowError | ValueError | TypeError | ValidationError

text \<open>
  The built-in \<^verbatim>\<open>float(s)\<close> on a string is not code of the repository. It is a parameter
  of the model: \<open>None\<close> stands for the \<^verbatim>\<open>ValueError\<close> of an unparseable string.
\<close>

type_synonym parse_float = "string \<Rightarrow> pyfloat option"

text \<open>
  \<^verbatim>\<open>float(n)\<close> and \<^verbatim>\<open>math.isnan(n)\<close> on an \<^verbatim>\<open>int\<close> raise \<^verbatim>\<open>OverflowError\<close> when
  \<open>n\<close> rounds to a magnitude beyond the largest double, \<open>2^1024 - 2^971\<close>; the first such
  integer is the midpoint \<open>2^1024 - 2^970\<close>.
\<close>

definition py_float_of_int :: "int \<Rightarrow> exn + real" where
  "py_float_of_int n =
     (if \<bar>n\<bar> < 2 ^ 1024 - 2 ^ 970 then Inr (of_int n) else Inl OverflowError)"

text \<open>\<^verbatim>\<open>int(x)\<close> on a finite float truncates towards zero.\<close>

definition py_int_of_float :: "real \<Rightarrow> int" where
  "py_int_of_float x = (if 0 \<le> x then \<lfloor>x\<rfloor> else \<lceil>x\<rceil>)"

text \<open>
  The diagnostics appended to the \<^verbatim>\<open>warnings\<close> list are formatted strings. The model
  keeps them structured, one constructor per message of the source:
  \<^item> \<open>MissingRatio name\<close>: "\{name\} missing, using neutral fallback 0.5"
  \<^item> \<open>NegativeClamped name value\<close>: "\{name\} negative (\{value\}), clamping to 0"
  \<^item> \<open>AboveOneClamped name value\<close>: "\{name\} > 1.0 (\{value\}), clamping to 1.0"
  \<^item> \<open>MissingCount name\<close>: "\{name\} missing, using fallback 0"
  \<^item> \<open>NegativeRating name value\<close>: "\{name\} negative (\{value\}), treating as missing"
  \<^item> \<open>MissingAiScore name\<close>: "\{name\} missing, using neutral fallback 50.0"
  \<^item> \<open>BothRatingsMissing\<close>: "Both CF_rating and LC_rating missing, using neutral baseline 50 percentile"
  \<^item> \<open>CalculatorError fn e\<close>: "Error in \{fn\}: \{e\}"
  \<^item> \<open>PenaltyApplied p\<close>: "Minimum dominance rule applied: penalty \{p*100:.1f\}%"
  \<^item> \<open>RatingNegativeClamped platform value\<close> (\<^verbatim>\<open>hpps_improvements.py\<close>):
    "\{platform\} rating is negative (\{value\}), clamping to 0"
\<close>

datatype warning =
    MissingRatio string
  | NegativeClamped string pyval
  | AboveOneClamped string pyval
  | MissingCount string
  | NegativeRating string pyval
  | MissingAiScore string
  | BothRatingsMissing
  | CalculatorError string exn
  | PenaltyApplied real
  | RatingNegativeClamped string pyval

subsection \<open>Computations that append warnings and may raise\<close>

text \<open>
  The functions of \<^verbatim>\<open>function.py\<close> share one mutable \<^verbatim>\<open>warnings\<close> list and may raise.
  A computation takes the list and returns the raised exception or the value, together
  with the list as it is at that moment (what was appended before a raise stays).
\<close>

type_synonym 'a comp = "warning list \<Rightarrow> (exn + 'a) \<times> warning list"

definition ret :: "'a \<Rightarrow> 'a comp" where
  "ret x w = (Inr x, w)"

definition lift :: "exn + 'a \<Rightarrow> 'a comp" where
  "lift r w = (r, w)"

definition warn :: "warning \<Rightarrow> unit comp" where
  "warn msg w = (Inr (), w @ [msg])"

definition and_then :: "'a comp \<Rightarrow> ('a \<Rightarrow> 'b comp) \<Rightarrow> 'b comp" where
  "and_then m f w = (case m w of (Inl e, w') \<Rightarrow> (Inl e, w') | (Inr x, w') \<Rightarrow> f x w')"

definition try_except :: "'a comp \<Rightarrow> (exn \<Rightarrow> 'a comp) \<Rightarrow> 'a comp" where
  "try_except m h w = (case m w of (Inl e, w') \<Rightarrow> h e w' | (Inr x, w') \<Rightarrow> (Inr x, w'))"

section \<open>Validation and coercion (function.py)\<close>

text \<open>
  \<^verbatim>\<open>safe_float(value, default)\<close>: the only raise is the \<^verbatim>\<open>OverflowError\<close> of
  \<^verbatim>\<open>math.isnan\<close> on an integer too large for a double, which is outside the
  function's \<^verbatim>\<open>try\<close>.
\<close>

definition safe_float :: "parse_float \<Rightarrow> pyval \<Rightarrow> real option \<Rightarrow> exn + real option" where
  "safe_float pf v dflt =
     (case v of
        PNone \<Rightarrow> Inr dflt
      | PInt n \<Rightarrow> (case py_float_of_int n of Inl e \<Rightarrow> Inl e | Inr x \<Rightarrow> Inr (Some x))
      | PFloat f \<Rightarrow> (case f of Fin x \<Rightarrow> Inr (Some x) | _ \<Rightarrow> Inr dflt)
      | PStr s \<Rightarrow> (case pf s of Some (Fin x) \<Rightarrow> Inr (Some x) | _ \<Rightarrow> Inr dflt)
      | POther \<Rightarrow> Inr dflt)"

definition safe_int :: "parse_float \<Rightarrow> pyval \<Rightarrow> int option \<Rightarrow> exn + int option" where
  "safe_int pf v dflt =
     (case safe_float pf v None of
        Inl e \<Rightarrow> Inl e
      | Inr None \<Rightarrow> Inr dflt
      | Inr (Some x) \<Rightarrow> Inr (Some (py_int_of_float x)))"

definition validate_ratio :: "parse_float \<Rightarrow> pyval \<Rightarrow> string \<Rightarrow> real comp" where
  "validate_ratio pf v name =
     and_then (lift (safe_float pf v None)) (\<lambda>num_val.
       case num_val of
         None \<Rightarrow> and_then (warn (MissingRatio name)) (\<lambda>_. ret 0.5)
       | Some x \<Rightarrow>
           if x < 0 then and_then (warn (NegativeClamped name v)) (\<lambda>_. ret 0)
           else if x > 1 then and_then (warn (AboveOneClamped name v)) (\<lambda>_. ret 1)
           else ret x)"

definition validate_count :: "parse_float \<Rightarrow> pyval \<Rightarrow> string \<Rightarrow> int comp" where
  "validate_count pf v name =
     and_then (lift (safe_int pf v None)) (\<lambda>num_val.
       case num_val of
         None \<Rightarrow> and_then (warn (MissingCount name)) (\<lambda>_. ret 0)
       | Some n \<Rightarrow>
           if n < 0 then and_then (warn (NegativeClamped name v)) (\<lambda>_. ret 0)
           else ret n)"

definition validate_rating :: "parse_float \<Rightarrow> pyval \<Rightarrow> string \<Rightarrow> real option comp" where
  "validate_rating pf v name =
     and_then (lift (safe_float pf v None)) (\<lambda>num_val.
       case num_val of
         None \<Rightarrow> ret None
       | Some x \<Rightarrow>
           if x < 0 then and_then (warn (NegativeRating name v)) (\<lambda>_. ret None)
           else ret (Some x))"

definition validate_ai_score :: "parse_float \<Rightarrow> pyval \<Rightarrow> string \<Rightarrow> real comp" where
  "validate_ai_score pf v name =
     and_then (lift (safe_float pf v None)) (\<lambda>num_val.
       case num_val of
         None \<Rightarrow> and_then (warn (MissingAiScore name)) (\<lambda>_. ret 50)
       | Some x \<Rightarrow>
           if x < 0 then and_then (warn (NegativeClamped name v)) (\<lambda>_. ret 0)
           else ret x)"

section \<open>Percentile lookup and normalisation (function.py)\<close>

text \<open>
  The two percentile tables are only ever called on the result of \<^verbatim>\<open>validate_rating\<close>,
  a float or \<^verbatim>\<open>None\<close>; on these the \<^verbatim>\<open>try\<close> of the source cannot fail.
\<close>

definition cf_percentile_safe :: "real option \<Rightarrow> real" where
  "cf_percentile_safe codeforces_rating =
     (case codeforces_rating of
        None \<Rightarrow> 50
      | Some rating \<Rightarrow>
          if rating \<ge> 3000 then 99.93
          else if rating \<ge> 2400 then 99.2
          else if rating \<ge> 2100 then 97
          else if rating \<ge> 1900 then 94
          else if rating \<ge> 1600 then 85
          else if rating \<ge> 1400 then 73
          else if rating \<ge> 1200 then 55
          else if rating \<ge> 1000 then 33
          else if rating \<ge> 800 then 11
          else 5)"

definition lc_percentile_safe :: "real option \<Rightarrow> real" where
  "lc_percentile_safe leetcode_rating =
     (case leetcode_rating of
        None \<Rightarrow> 50
      | Some rating \<Rightarrow>
          if rating \<ge> 2500 then 97.63
          else if rating \<ge> 2200 then 91.19
          else if rating \<ge> 2000 then 79.98
          else if rating \<ge> 1850 then 63.77
          else if rating \<ge> 1750 then 49.98
          else if rating \<ge> 1600 then 27.35
          else if rating \<ge> 1500 then 15.09
          else if rating \<ge> 1400 then 6.66
          else if rating \<ge> 1200 then 0.83
          else if rating \<ge> 1000 then 0.4
          else 0.1)"

definition get_best_rating_percentile :: "parse_float \<Rightarrow> pyval \<Rightarrow> pyval \<Rightarrow> real comp" where
  "get_best_rating_percentile pf CF_rating LC_rating =
     and_then (validate_rating pf CF_rating ''CF_rating'') (\<lambda>cf_valid.
     and_then (validate_rating pf LC_rating ''LC_rating'') (\<lambda>lc_valid.
       case (cf_valid, lc_valid) of
         (Some cf, Some lc) \<Rightarrow>
           if cf \<ge> 0.75 * lc then ret (cf_percentile_safe (Some cf))
           else ret (lc_percentile_safe (Some lc))
       | (Some cf, None) \<Rightarrow> ret (cf_percentile_safe (Some cf))
       | (None, Some lc) \<Rightarrow> ret (lc_percentile_safe (Some lc))
       | (None, None) \<Rightarrow> and_then (warn BothRatingsMissing) (\<lambda>_. ret 50)))"

text \<open>
  \<^verbatim>\<open>norm\<close> is called on validated counts (integers) and on floats. Its \<^verbatim>\<open>float(value)\<close>
  can overflow on an integer, which the function turns into \<open>0.0\<close>.
\<close>

datatype num = IntV int | FloatV real

definition to_float :: "num \<Rightarrow> exn + real" where
  "to_float v = (case v of IntV n \<Rightarrow> py_float_of_int n | FloatV x \<Rightarrow> Inr x)"

definition norm_value :: "num \<Rightarrow> real \<Rightarrow> real \<Rightarrow> real" where
  "norm_value v min_val max_val =
     (case to_float v of
        Inl e \<Rightarrow> 0
      | Inr val \<Rightarrow>
          if max_val = min_val then 0
          else max 0 (min 1 ((val - min_val) / (max_val - min_val))))"

definition norm_percentile :: "num \<Rightarrow> real" where
  "norm_percentile percentile_value = norm_value percentile_value 0 100"

text \<open>\<^verbatim>\<open>norm_ratio\<close> and \<^verbatim>\<open>normalize_ai_score\<close> are only called on floats.\<close>

definition norm_ratio :: "real \<Rightarrow> real" where
  "norm_ratio ratio_value = max 0 (min 1 ratio_value)"

definition norm_count :: "num \<Rightarrow> real \<Rightarrow> real" where
  "norm_count count_value max_count = norm_value count_value 0 max_count"

definition normalize_ai_score :: "real \<Rightarrow> real \<Rightarrow> real" where
  "normalize_ai_score val threshold =
     (if val > threshold then norm_percentile (FloatV val) else norm_ratio val)"

section \<open>Sub-score calculators (function.py)\<close>

text \<open>
  Each calculator wraps its whole body in \<^verbatim>\<open>try ... except Exception\<close>: a raise is
  turned into the value \<open>0.5\<close> and a warning. \<^verbatim>\<open>normalize_ai_score\<close> is called with
  its default threshold \<open>10.0\<close>.
\<close>

definition calculate_AD :: "parse_float \<Rightarrow> pyval \<Rightarrow> pyval \<Rightarrow> pyval \<Rightarrow> pyval \<Rightarrow> real comp" where
  "calculate_AD pf CF_rating LC_rating CF_hard_problem_ratio LC_medium_hard_ratio =
     try_except
       (and_then (get_best_rating_percentile pf CF_rating LC_rating) (\<lambda>best_percent.
        and_then (validate_ratio pf CF_hard_problem_ratio ''CF_hard_problem_ratio'') (\<lambda>r1.
        and_then (validate_ratio pf LC_medium_hard_ratio ''LC_medium_hard_ratio'') (\<lambda>r2.
          let norm_rating = norm_percentile (FloatV best_percent);
              norm_cf_hard = norm_ratio r1;
              norm_lc_medium_hard = norm_ratio r2;
              AD = 0.6 * norm_rating + 0.25 * norm_cf_hard + 0.15 * norm_lc_medium_hard
          in ret (max 0 (min 1 AD))))))
       (\<lambda>e. and_then (warn (CalculatorError ''calculate_AD'' e)) (\<lambda>_. ret 0.5))"

definition calculate_EAP :: "parse_float \<Rightarrow> pyval \<Rightarrow> pyval \<Rightarrow> pyval \<Rightarrow> pyval \<Rightarrow> real comp" where
  "calculate_EAP pf real_projects_count project_complexity_score stack_diversity
       code_quality_indicators =
     try_except
       (and_then (validate_count pf real_projects_count ''real_projects_count'') (\<lambda>projects.
        and_then (validate_ai_score pf project_complexity_score ''project_complexity_score'') (\<lambda>complexity.
        and_then (validate_ai_score pf stack_diversity ''stack_diversity'') (\<lambda>stack.
        and_then (validate_ai_score pf code_quality_indicators ''code_quality_indicators'') (\<lambda>quality.
          let norm_projects = norm_count (IntV projects) 50;
              norm_complexity = normalize_ai_score complexity 10;
              norm_stack = normalize_ai_score stack 10;
              norm_quality = normalize_ai_score quality 10;
              EAP = 0.4 * norm_projects + 0.25 * norm_complexity + 0.2 * norm_stack
                    + 0.15 * norm_quality
          in ret (max 0 (min 1 EAP)))))))
       (\<lambda>e. and_then (warn (CalculatorError ''calculate_EAP'' e)) (\<lambda>_. ret 0.5))"

definition calculate_CCL :: "parse_float \<Rightarrow> pyval \<Rightarrow> pyval \<Rightarrow> pyval \<Rightarrow> pyval \<Rightarrow> real comp" where
  "calculate_CCL pf active_months activity_frequency rating_stability longest_streak =
     try_except
       (and_then (validate_count pf active_months ''active_months'') (\<lambda>months.
        and_then (lift (safe_float pf activity_frequency None)) (\<lambda>freq.
        and_then (case freq of
                    None \<Rightarrow> and_then (warn (MissingRatio ''activity_frequency'')) (\<lambda>_. ret 0.5)
                  | Some f \<Rightarrow> if f \<le> 1 then ret (norm_ratio f)
                              else ret (norm_count (FloatV f) 30)) (\<lambda>norm_frequency.
        and_then (lift (safe_float pf rating_stability None)) (\<lambda>stability.
        and_then (case stability of
                    None \<Rightarrow> and_then (warn (MissingRatio ''rating_stability'')) (\<lambda>_. ret 0.5)
                  | Some s \<Rightarrow> if s \<le> 1 then ret (norm_ratio s)
                              else ret (norm_percentile (FloatV s))) (\<lambda>norm_stability.
        and_then (validate_count pf longest_streak ''longest_streak'') (\<lambda>streak.
          let norm_months = norm_count (IntV months) 60;
              norm_streak = norm_count (IntV streak) 365;
              CCL = 0.4 * norm_months + 0.25 * norm_frequency + 0.2 * norm_stability
                    + 0.15 * norm_streak
          in ret (max 0 (min 1 CCL)))))))))
       (\<lambda>e. and_then (warn (CalculatorError ''calculate_CCL'' e)) (\<lambda>_. ret 0.5))"

definition calculate_LA :: "parse_float \<Rightarrow> pyval \<Rightarrow> pyval \<Rightarrow> pyval \<Rightarrow> pyval \<Rightarrow> real comp" where
  "calculate_LA pf new_tech_usage reusable_components oss_engagement cross_domain_work =
     try_except
       (and_then (validate_ai_score pf new_tech_usage ''new_tech_usage'') (\<lambda>new_tech.
        and_then (validate_ai_score pf reusable_components ''reusable_components'') (\<lambda>reusable.
        and_then (validate_ai_score pf oss_engagement ''oss_engagement'') (\<lambda>oss.
        and_then (validate_ai_score pf cross_domain_work ''cross_domain_work'') (\<lambda>cross.
          let norm_new_tech = normalize_ai_score new_tech 10;
              norm_reusable = normalize_ai_score reusable 10;
              norm_oss = normalize_ai_score oss 10;
              norm_cross = normalize_ai_score cross 10;
              LA = 0.35 * norm_new_tech + 0.25 * norm_reusable + 0.2 * norm_oss
                   + 0.2 * norm_cross
          in ret (max 0 (min 1 LA)))))))
       (\<lambda>e. and_then (warn (CalculatorError ''calculate_LA'' e)) (\<lambda>_. ret 0.5))"

section \<open>Dominance penalty and composite score (function.py)\<close>

text \<open>
  \<^verbatim>\<open>apply_min_dominance_penalty(AD, EAP, CCL, penalty_min=0.3, penalty_max=0.5, warnings=None)\<close>.
  The flag \<open>record_warnings\<close> is true when a \<^verbatim>\<open>warnings\<close> list is passed, as
  \<^verbatim>\<open>calculate_HPPS\<close> does.
\<close>

definition apply_min_dominance_penalty ::
    "real \<Rightarrow> real \<Rightarrow> real \<Rightarrow> real \<Rightarrow> real \<Rightarrow> bool \<Rightarrow> real comp" where
  "apply_min_dominance_penalty AD EAP CCL penalty_min penalty_max record_warnings =
     try_except
       (let min_score = min AD (min EAP CCL) in
        if min_score < 0.4 then
          let penalty = penalty_min + (penalty_max - penalty_min) * (0.4 - min_score) / 0.4 in
          and_then (if record_warnings then warn (PenaltyApplied penalty) else ret ())
            (\<lambda>_. ret (1 - penalty))
        else ret 1)
       (\<lambda>e. and_then
          (if record_warnings then warn (CalculatorError ''apply_min_dominance_penalty'' e)
           else ret ())
          (\<lambda>_. ret 1))"

text \<open>The sixteen keyword arguments of \<^verbatim>\<open>calculate_HPPS\<close>.\<close>

record signals =
  CF_rating :: pyval
  LC_rating :: pyval
  CF_hard_problem_ratio :: pyval
  LC_medium_hard_ratio :: pyval
  real_projects_count :: pyval
  active_months :: pyval
  activity_frequency :: pyval
  rating_stability :: pyval
  longest_streak :: pyval
  project_complexity_score :: pyval
  code_quality_indicators :: pyval
  stack_diversity :: pyval
  reusable_components :: pyval
  cross_domain_work :: pyval
  oss_engagement :: pyval
  new_tech_usage :: pyval

text \<open>
  The dictionary that \<^verbatim>\<open>calculate_HPPS\<close> returns. An entry of \<^verbatim>\<open>errors\<close> is the message
  "Critical error in calculate_HPPS: \{e\}".
\<close>

datatype error_entry = CriticalError exn

record composite_score =
  HPPS :: real
  HPPS_percentage :: real
  AD :: real
  EAP :: real
  CCL :: real
  LA :: real
  penalty_applied :: bool
  penalty_multiplier :: real
  base_HPPS :: real
  warnings :: "warning list"
  errors :: "error_entry list"

definition current_warnings :: "warning list comp" where
  "current_warnings w = (Inr w, w)"

definition calculate_HPPS_try :: "parse_float \<Rightarrow> signals \<Rightarrow> composite_score comp" where
  "calculate_HPPS_try pf s =
     and_then (calculate_AD pf (CF_rating s) (LC_rating s) (CF_hard_problem_ratio s)
                 (LC_medium_hard_ratio s)) (\<lambda>AD.
     and_then (calculate_EAP pf (real_projects_count s) (project_complexity_score s)
                 (stack_diversity s) (code_quality_indicators s)) (\<lambda>EAP.
     and_then (calculate_CCL pf (active_months s) (activity_frequency s) (rating_stability s)
                 (longest_streak s)) (\<lambda>CCL.
     and_then (calculate_LA pf (new_tech_usage s) (reusable_components s) (oss_engagement s)
                 (cross_domain_work s)) (\<lambda>LA.
     and_then (apply_min_dominance_penalty AD EAP CCL 0.3 0.5 True) (\<lambda>penalty_factor.
     and_then current_warnings (\<lambda>w.
       let base = 0.30 * AD + 0.30 * EAP + 0.25 * CCL + 0.15 * LA;
           final_HPPS = penalty_factor * base
       in ret \<lparr> HPPS = max 0 (min 1 final_HPPS),
                 HPPS_percentage = max 0 (min 100 (final_HPPS * 100)),
                 AD = max 0 (min 1 AD),
                 EAP = max 0 (min 1 EAP),
                 CCL = max 0 (min 1 CCL),
                 LA = max 0 (min 1 LA),
                 penalty_applied = (penalty_factor < 1),
                 penalty_multiplier = penalty_factor,
                 base_HPPS = max 0 (min 1 base),
                 warnings = w,
                 errors = [] \<rparr>))))))"

definition calculate_HPPS_except :: "exn \<Rightarrow> composite_score comp" where
  "calculate_HPPS_except e =
     and_then current_warnings (\<lambda>w.
       ret \<lparr> HPPS = 0, HPPS_percentage = 0, AD = 0, EAP = 0, CCL = 0, LA = 0,
             penalty_applied = False, penalty_multiplier = 1, base_HPPS = 0,
             warnings = w, errors = [CriticalError e] \<rparr>)"

text \<open>
  \<^verbatim>\<open>calculate_HPPS\<close> starts from an empty \<^verbatim>\<open>warnings\<close> list. The result type keeps the
  possibility of an exception that leaves the function.
\<close>

definition calculate_HPPS :: "parse_float \<Rightarrow> signals \<Rightarrow> exn + composite_score" where
  "calculate_HPPS pf s = fst (try_except (calculate_HPPS_try pf s) calculate_HPPS_except [])"

section \<open>Improved validation and normalisation (hpps_improvements.py)\<close>

text \<open>
  The module \<^verbatim>\<open>hpps_improvements.py\<close> defines its own \<^verbatim>\<open>validate_rating\<close>, \<^verbatim>\<open>norm\<close>
  and \<^verbatim>\<open>normalize_ai_score\<close>; no other module imports it. Its functions carry the
  suffix \<open>_improved\<close> here. Its diagnostics go to Python's \<^verbatim>\<open>warnings.warn\<close>,
  modelled by the same list.
\<close>

record HPPSConfig =
  max_projects :: int
  max_active_months :: int
  max_streak_days :: int
  max_activity_frequency :: int
  default_ai_score :: real
  penalty_threshold :: real
  penalty_range :: "real \<times> real"
  rating_selection_ratio :: real
  ai_scale_threshold :: real

definition default_config :: HPPSConfig where
  "default_config =
     \<lparr> max_projects = 50, max_active_months = 60, max_streak_days = 365,
       max_activity_frequency = 30, default_ai_score = 50, penalty_threshold = 0.4,
       penalty_range = (0.3, 0.5), rating_selection_ratio = 0.75,
       ai_scale_threshold = 10 \<rparr>"

definition validate_rating_improved :: "pyval \<Rightarrow> string \<Rightarrow> pyfloat option comp" where
  "validate_rating_improved rating platform =
     (case rating of
        PNone \<Rightarrow> ret None
      | PInt n \<Rightarrow>
          if n < 0 then and_then (warn (RatingNegativeClamped platform rating)) (\<lambda>_. ret (Some (Fin 0)))
          else and_then (lift (py_float_of_int n)) (\<lambda>x. ret (Some (Fin x)))
      | PFloat f \<Rightarrow>
          (case f of
             Fin x \<Rightarrow>
               if x < 0 then and_then (warn (RatingNegativeClamped platform rating)) (\<lambda>_. ret (Some (Fin 0)))
               else ret (Some (Fin x))
           | NegInf \<Rightarrow> and_then (warn (RatingNegativeClamped platform rating)) (\<lambda>_. ret (Some (Fin 0)))
           | _ \<Rightarrow> ret (Some f))
      | PStr s \<Rightarrow> lift (Inl ValidationError)
      | POther \<Rightarrow> lift (Inl ValidationError))"

definition norm_improved :: "real \<Rightarrow> real \<Rightarrow> real \<Rightarrow> exn + real" where
  "norm_improved v min_val max_val =
     (if max_val = min_val then Inl ValueError
      else Inr (max 0 (min 1 ((v - min_val) / (max_val - min_val)))))"

definition norm_percentile_improved :: "real \<Rightarrow> exn + real" where
  "norm_percentile_improved percentile_value = norm_improved percentile_value 0 100"

definition norm_ratio_improved :: "real \<Rightarrow> real" where
  "norm_ratio_improved ratio_value = max 0 (min 1 ratio_value)"

definition normalize_ai_score_improved :: "real \<Rightarrow> HPPSConfig \<Rightarrow> string option \<Rightarrow> exn + real" where
  "normalize_ai_score_improved v config explicit_scale =
     (let scale = (case explicit_scale of
                     None \<Rightarrow> if v > ai_scale_threshold config then ''0-100'' else ''0-1''
                   | Some sc \<Rightarrow> sc)
      in if scale = ''0-1'' then Inr (norm_ratio_improved v)
         else norm_percentile_improved v)"

section \<open>Keyword normalisation and matching (job_matching_layer.py)\<close>

text \<open>
  Keywords are ASCII text: a \<open>char\<close> is read as its code, the character classes
  \<^verbatim>\<open>\w\<close> and \<^verbatim>\<open>\s\<close> and \<^verbatim>\<open>str.lower\<close> are those of Python on the codes below 128, and a
  code from 128 on is in neither class.
\<close>

definition is_space :: "char \<Rightarrow> bool" where
  "is_space c = (let n = (of_char c :: nat) in (9 \<le> n \<and> n \<le> 13) \<or> (28 \<le> n \<and> n \<le> 32))"

definition is_word :: "char \<Rightarrow> bool" where
  "is_word c = (let n = (of_char c :: nat) in
     (48 \<le> n \<and> n \<le> 57) \<or> (65 \<le> n \<and> n \<le> 90) \<or> n = 95 \<or> (97 \<le> n \<and> n \<le> 122))"

definition lower_char :: "char \<Rightarrow> char" where
  "lower_char c = (let n = (of_char c :: nat) in
     if 65 \<le> n \<and> n \<le> 90 then char_of (n + 32) else c)"

definition strip_chars :: "(char \<Rightarrow> bool) \<Rightarrow> string \<Rightarrow> string" where
  "strip_chars p s = rev (dropWhile p (rev (dropWhile p s)))"

definition is_sep :: "char \<Rightarrow> bool" where
  "is_sep c = (is_space c \<or> c = CHR ''-'')"

text \<open>
  \<^verbatim>\<open>re.sub(r'[\s-]+', '_', keyword)\<close>: every maximal run of separators becomes one
  underscore. The flag says whether the previous character belonged to a run.
\<close>

fun collapse_seps :: "bool \<Rightarrow> string \<Rightarrow> string" where
  "collapse_seps in_run [] = []"
| "collapse_seps in_run (c # cs) =
     (if is_sep c then (if in_run then collapse_seps True cs
                        else CHR ''_'' # collapse_seps True cs)
      else c # collapse_seps False cs)"

definition normalize_keyword :: "string \<Rightarrow> string option" where
  "normalize_keyword keyword =
     (if keyword = [] then None
      else let k1 = map lower_char (strip_chars is_space keyword) in
        if k1 = [] then None
        else let k2 = filter (\<lambda>c. is_word c \<or> is_space c \<or> c = CHR ''-'') k1;
                 k3 = collapse_seps False k2;
                 k4 = strip_chars (\<lambda>c. c = CHR ''_'') k3
             in if k4 = [] then None else Some k4)"

text \<open>
  A field of a student profile (\<^verbatim>\<open>skills\<close>, \<^verbatim>\<open>tags\<close>, \<^verbatim>\<open>languages\<close>) is a string, a
  list, or anything else. A list item is represented by its \<^verbatim>\<open>str(item)\<close>, and an item
  that Python takes as false by the empty string (both are skipped).
\<close>

datatype field = FStr string | FList "string list" | FOther

fun normalize_items :: "string list \<Rightarrow> string list" where
  "normalize_items [] = []"
| "normalize_items (item # items) =
     (case (if item = [] then None else normalize_keyword item) of
        None \<Rightarrow> normalize_items items
      | Some normalized \<Rightarrow> normalized # normalize_items items)"

definition normalize_student_field :: "field \<Rightarrow> string list" where
  "normalize_student_field fld =
     (case fld of
        FStr s \<Rightarrow> (if s = [] then []
                   else case normalize_keyword s of None \<Rightarrow> [] | Some k \<Rightarrow> [k])
      | FList items \<Rightarrow> normalize_items items
      | FOther \<Rightarrow> [])"

definition KEYWORD_MAP :: "(string \<times> string list) list" where
  "KEYWORD_MAP =
     [(''rest_api'', [''backend'']),
      (''api'', [''backend'']),
      (''flask'', [''backend'', ''python'']),
      (''django'', [''backend'', ''python'']),
      (''fastapi'', [''backend'', ''python'']),
      (''express'', [''backend'', ''javascript'']),
      (''node'', [''backend'', ''javascript'']),
      (''spring'', [''backend'', ''java'']),
      (''rails'', [''backend'', ''ruby'']),
      (''laravel'', [''backend'', ''php'']),
      (''sql'', [''database'']),
      (''mysql'', [''database'']),
      (''postgresql'', [''database'']),
      (''postgres'', [''database'']),
      (''mongodb'', [''database'']),
      (''redis'', [''database'']),
      (''react'', [''frontend'', ''javascript'']),
      (''vue'', [''frontend'', ''javascript'']),
      (''angular'', [''frontend'', ''javascript'']),
      (''typescript'', [''javascript'']),
      (''javascript'', [''javascript'']),
      (''python'', [''python'']),
      (''java'', [''java'']),
      (''cpp'', [''c++'']),
      (''c++'', [''c++'']),
      (''c'', [''c'']),
      (''go'', [''go'']),
      (''rust'', [''rust'']),
      (''html'', [''frontend'']),
      (''css'', [''frontend'']),
      (''docker'', [''devops'']),
      (''kubernetes'', [''devops'']),
      (''k8s'', [''devops'']),
      (''aws'', [''cloud'']),
      (''azure'', [''cloud'']),
      (''gcp'', [''cloud'']),
      (''tensorflow'', [''machine_learning'']),
      (''pytorch'', [''machine_learning'']),
      (''sklearn'', [''machine_learning'']),
      (''pandas'', [''data_engineering'']),
      (''spark'', [''data_engineering'']),
      (''etl'', [''data_engineering''])]"

text \<open>\<^verbatim>\<open>_check_keyword_match\<close> (an Isabelle name cannot start with an underscore).\<close>

definition check_keyword_match :: "string \<Rightarrow> string set \<Rightarrow> bool" where
  "check_keyword_match keyword all_student_keywords =
     (if keyword \<in> all_student_keywords then True
      else case map_of KEYWORD_MAP keyword of
             Some mapped_fields \<Rightarrow> list_ex (\<lambda>fld. fld \<in> all_student_keywords) mapped_fields
           | None \<Rightarrow> False)"

record match_result =
  matched_keywords :: "string list"
  unmatched_keywords :: "string list"
  total_keywords :: nat
  match_pct :: real
  mandatory_matched :: bool
  mandatory_matched_keywords :: "string list"
  mandatory_unmatched_keywords :: "string list"
  mandatory_count :: nat
  mandatory_matched_count :: nat

text \<open>The loop over the job keywords: the two lists \<^verbatim>\<open>matched\<close> and \<^verbatim>\<open>unmatched\<close>.\<close>

fun split_keywords :: "string set \<Rightarrow> string list \<Rightarrow> string list \<times> string list" where
  "split_keywords all_kw [] = ([], [])"
| "split_keywords all_kw (kw # kws) =
     (let (matched, unmatched) = split_keywords all_kw kws in
      if check_keyword_match kw all_kw then (kw # matched, unmatched)
      else (matched, kw # unmatched))"

text \<open>The loop over the mandatory keywords, which normalises each one first.\<close>

fun split_mandatory :: "string set \<Rightarrow> string list \<Rightarrow> string list \<times> string list" where
  "split_mandatory all_kw [] = ([], [])"
| "split_mandatory all_kw (mkw # mkws) =
     (let (matched, unmatched) = split_mandatory all_kw mkws in
      case normalize_keyword mkw of
        None \<Rightarrow> (matched, unmatched)
      | Some normalized_mkw \<Rightarrow>
          if check_keyword_match normalized_mkw all_kw then (normalized_mkw # matched, unmatched)
          else (matched, normalized_mkw # unmatched))"

text \<open>
  A student profile is a dictionary, here the list of its items; \<^verbatim>\<open>not student\<close> holds
  for the empty one. \<^verbatim>\<open>student.get(key, [])\<close> gives the empty list for a missing key.
\<close>

definition get_field :: "(string \<times> field) list \<Rightarrow> string \<Rightarrow> field" where
  "get_field student key = (case map_of student key of None \<Rightarrow> FList [] | Some f \<Rightarrow> f)"

definition calculate_keyword_match ::
    "(string \<times> field) list \<Rightarrow> string list \<Rightarrow> string list \<Rightarrow> match_result option" where
  "calculate_keyword_match student keywords mandatory_keywords =
     (if student = [] then None
      else if keywords = [] then None
      else
        let skills = normalize_student_field (get_field student ''skills'');
            tags = normalize_student_field (get_field student ''tags'');
            languages = normalize_student_field (get_field student ''languages'');
            all_student_keywords = set (skills @ tags @ languages);
            (matched, unmatched) = split_keywords all_student_keywords keywords;
            (m_matched, m_unmatched) = split_mandatory all_student_keywords mandatory_keywords;
            total = length keywords;
            matched_count = length matched;
            pct = (if total = 0 then 0 else real matched_count / real total);
            mandatory_met = (if mandatory_keywords = [] then True
                             else length m_matched = length mandatory_keywords)
        in Some \<lparr> matched_keywords = matched,
                  unmatched_keywords = unmatched,
                  total_keywords = total,
                  match_pct = max 0 (min 1 pct),
                  mandatory_matched = mandatory_met,
                  mandatory_matched_keywords = m_matched,
                  mandatory_unmatched_keywords = m_unmatched,
                  mandatory_count = length mandatory_keywords,
                  mandatory_matched_count = length m_matched \<rparr>)"

section \<open>Dual ranking (job_matching_layer.py)\<close>













section \<open>Concrete inputs\<close>

text \<open>A \<^verbatim>\<open>float(s)\<close> that parses no string, for inputs without strings.\<close>

definition no_parse :: parse_float where
  "no_parse s = None"


text \<open>The call at the end of \<^verbatim>\<open>function.py\<close>.\<close>

definition main_example :: signals where
  "main_example =
     \<lparr> CF_rating = PInt 2100, LC_rating = PNone,
       CF_hard_problem_ratio = PFloat (Fin 0.15), LC_medium_hard_ratio = PFloat (Fin 0.25),
       real_projects_count = PInt 10, active_months = PInt 24,
       activity_frequency = PFloat (Fin 0.8), rating_stability = PFloat (Fin 0.85),
       longest_streak = PInt 120, project_complexity_score = PFloat (Fin 75),
       code_quality_indicators = PFloat (Fin 80), stack_diversity = PFloat (Fin 70),
       reusable_components = PFloat (Fin 60), cross_domain_work = PFloat (Fin 65),
       oss_engagement = PFloat (Fin 50), new_tech_usage = PFloat (Fin 70) \<rparr>"


text \<open>
  Scenario C of the specification: a profile whose tags are \<^verbatim>\<open>python\<close> and
  \<^verbatim>\<open>backend\<close>.
\<close>

definition scenario_c_student :: "(string \<times> field) list" where
  "scenario_c_student = [(''tags'', FList [''python'', ''backend''])]"






section \<open>Reasoning about computations\<close>

lemmas comp_defs = ret_def lift_def warn_def and_then_def try_except_def

lemmas validate_defs = validate_rating_def validate_ratio_def validate_count_def
  validate_ai_score_def safe_float_def safe_int_def py_int_of_float_def

lemmas norm_defs = norm_percentile_def norm_value_def norm_ratio_def norm_count_def
  normalize_ai_score_def to_float_def

lemma and_then_InrE:
  assumes "and_then m f w = (Inr y, w')"
  obtains x w1 where "m w = (Inr x, w1)" and "f x w1 = (Inr y, w')"
  using assms by (auto simp: and_then_def split: prod.splits sum.splits)

lemma ret_Inr_iff: "ret x w = (Inr y, w') \<longleftrightarrow> y = x \<and> w' = w"
  by (auto simp: ret_def)

text \<open>
  A \<^verbatim>\<open>try ... except Exception\<close> whose handler always returns: the whole returns, and
  what holds of both results holds of it.
\<close>

lemma try_except_returns:
  assumes body: "\<And>x w'. m w = (Inr x, w') \<Longrightarrow> P x"
    and handler: "\<And>e w'. \<exists>y w''. h e w' = (Inr y, w'') \<and> P y"
  shows "\<exists>y w''. try_except m h w = (Inr y, w'') \<and> P y"
proof (cases "m w")
  case (Pair r w')
  show ?thesis
  proof (cases r)
    case (Inl e)
    with Pair handler[of e w'] show ?thesis by (simp add: try_except_def)
  next
    case (Inr x)
    with Pair body[of x w'] show ?thesis by (simp add: try_except_def)
  qed
qed

lemma fallback_returns:
  "\<exists>y w''. and_then (warn msg) (\<lambda>_. ret (0.5::real)) w' = (Inr y, w'') \<and> 0 \<le> y \<and> y \<le> 1"
proof -
  have "and_then (warn msg) (\<lambda>_. ret (0.5::real)) w' = (Inr 0.5, w' @ [msg])"
    by (simp add: comp_defs)
  moreover have "(0::real) \<le> 0.5 \<and> (0.5::real) \<le> 1" by simp
  ultimately show ?thesis by blast
qed

section \<open>The sub-score calculators always return a value in the unit interval\<close>

lemma calculate_AD_returns:
  "\<exists>v w'. calculate_AD pf a b c d w = (Inr v, w') \<and> 0 \<le> v \<and> v \<le> 1"
  unfolding calculate_AD_def
  by (rule try_except_returns[OF _ fallback_returns])
     (auto elim!: and_then_InrE simp: ret_Inr_iff Let_def)

lemma calculate_EAP_returns:
  "\<exists>v w'. calculate_EAP pf a b c d w = (Inr v, w') \<and> 0 \<le> v \<and> v \<le> 1"
  unfolding calculate_EAP_def
  by (rule try_except_returns[OF _ fallback_returns])
     (auto elim!: and_then_InrE simp: ret_Inr_iff Let_def)

lemma calculate_CCL_returns:
  "\<exists>v w'. calculate_CCL pf a b c d w = (Inr v, w') \<and> 0 \<le> v \<and> v \<le> 1"
  unfolding calculate_CCL_def
  by (rule try_except_returns[OF _ fallback_returns])
     (auto elim!: and_then_InrE simp: ret_Inr_iff Let_def)

lemma calculate_LA_returns:
  "\<exists>v w'. calculate_LA pf a b c d w = (Inr v, w') \<and> 0 \<le> v \<and> v \<le> 1"
  unfolding calculate_LA_def
  by (rule try_except_returns[OF _ fallback_returns])
     (auto elim!: and_then_InrE simp: ret_Inr_iff Let_def)

section \<open>The dominance penalty\<close>

lemma penalty_value:
  "fst (apply_min_dominance_penalty a b c pmin pmax r w) =
     Inr (if min a (min b c) < 0.4
          then 1 - (pmin + (pmax - pmin) * (0.4 - min a (min b c)) / 0.4) else 1)"
  unfolding apply_min_dominance_penalty_def comp_defs Let_def
  by (cases "min a (min b c) < 0.4"; cases r; simp)

lemma penalty_default_value:
  "fst (apply_min_dominance_penalty a b c 0.3 0.5 r w) =
     Inr (if min a (min b c) \<ge> 0.4 then 1
          else 1 - (0.3 + 0.2 * (0.4 - min a (min b c)) / 0.4))"
proof -
  define m where "m = min a (min b c)"
  show ?thesis
    unfolding penalty_value m_def[symmetric] by (cases "m < 0.4") simp_all
qed

lemma penalty_returns:
  assumes "0 \<le> a" "0 \<le> b" "0 \<le> c"
  shows "\<exists>p w'. apply_min_dominance_penalty a b c 0.3 0.5 r w = (Inr p, w') \<and> 0 < p \<and> p \<le> 1"
proof -
  define m where "m = min a (min b c)"
  define p where "p = (if m \<ge> 0.4 then 1 else 1 - (0.3 + 0.2 * (0.4 - m) / 0.4))"
  have m: "0 \<le> m" using assms by (simp add: m_def)
  have "fst (apply_min_dominance_penalty a b c 0.3 0.5 r w) = Inr p"
    unfolding p_def m_def by (rule penalty_default_value)
  then have "\<exists>w'. apply_min_dominance_penalty a b c 0.3 0.5 r w = (Inr p, w')"
    by (metis prod.collapse)
  moreover have "0 < p \<and> p \<le> 1"
    using m by (cases "m \<ge> 0.4") (simp_all add: p_def field_simps)
  ultimately show ?thesis by blast
qed

text \<open>
  C2. For sub-scores in the unit interval with \<open>m\<close> their minimum, the multiplier of
  \<^verbatim>\<open>apply_min_dominance_penalty\<close> (default range 0.3 to 0.5) is \<open>1\<close> when \<open>m \<ge> 0.4\<close> and
  \<open>1 - (0.3 + 0.2 * (0.4 - m) / 0.4)\<close> when \<open>m < 0.4\<close>; at \<open>m = 0.4\<close> it is \<open>1\<close>, at
  \<open>m = 0\<close> it is \<open>0.5\<close>, at \<open>m = 0.35\<close> it is \<open>0.675\<close>. Whether a warnings list is passed,
  and what it holds, does not matter.
\<close>

theorem dominance_penalty_multiplier:
  assumes "0 \<le> ad" "ad \<le> 1" "0 \<le> eap" "eap \<le> 1" "0 \<le> ccl" "ccl \<le> 1"
  shows "fst (apply_min_dominance_penalty ad eap ccl 0.3 0.5 r w) =
           Inr (if min ad (min eap ccl) \<ge> 0.4 then 1
                else 1 - (0.3 + 0.2 * (0.4 - min ad (min eap ccl)) / 0.4))
       \<and> (min ad (min eap ccl) = 0.4 \<longrightarrow>
            fst (apply_min_dominance_penalty ad eap ccl 0.3 0.5 r w) = Inr 1)
       \<and> (min ad (min eap ccl) = 0 \<longrightarrow>
            fst (apply_min_dominance_penalty ad eap ccl 0.3 0.5 r w) = Inr 0.5)
       \<and> (min ad (min eap ccl) = 0.35 \<longrightarrow>
            fst (apply_min_dominance_penalty ad eap ccl 0.3 0.5 r w) = Inr 0.675)"
proof -
  define m where "m = min ad (min eap ccl)"
  have v: "fst (apply_min_dominance_penalty ad eap ccl 0.3 0.5 r w) =
             Inr (if m \<ge> 0.4 then 1 else 1 - (0.3 + 0.2 * (0.4 - m) / 0.4))"
    unfolding m_def by (rule penalty_default_value)
  have "m = 0.4 \<longrightarrow> fst (apply_min_dominance_penalty ad eap ccl 0.3 0.5 r w) = Inr 1"
    unfolding v by simp
  moreover have "m = 0 \<longrightarrow> fst (apply_min_dominance_penalty ad eap ccl 0.3 0.5 r w) = Inr 0.5"
    unfolding v by simp
  moreover have "m = 0.35 \<longrightarrow> fst (apply_min_dominance_penalty ad eap ccl 0.3 0.5 r w) = Inr 0.675"
    unfolding v by simp
  ultimately show ?thesis using v unfolding m_def by blast
qed

text \<open>Scenario B of the specification: sub-scores 0.35, 0.9 and 0.9 give 0.675.\<close>

theorem dominance_penalty_multiplier_witness:
  "fst (apply_min_dominance_penalty 0.35 0.9 0.9 0.3 0.5 True []) = Inr 0.675"
proof -
  have m: "min (0.35::real) (min 0.9 0.9) = 0.35" by simp
  have "min (0.35::real) (min 0.9 0.9) = 0.35 \<longrightarrow>
          fst (apply_min_dominance_penalty 0.35 0.9 0.9 0.3 0.5 True []) = Inr 0.675"
    using dominance_penalty_multiplier[of "0.35" "0.9" "0.9" True "[]"] by simp
  with m show ?thesis by blast
qed

section \<open>The composite score\<close>

text \<open>
  Whatever the signals are, \<^verbatim>\<open>calculate_HPPS\<close> leaves through the \<^verbatim>\<open>return\<close> of its
  \<^verbatim>\<open>try\<close> block, with four sub-scores in the unit interval and a multiplier in \<open>(0, 1]\<close>.
\<close>

lemma calculate_HPPS_shape:
  "\<exists>a e c l p w.
     0 \<le> a \<and> a \<le> 1 \<and> 0 \<le> e \<and> e \<le> 1 \<and> 0 \<le> c \<and> c \<le> 1 \<and> 0 \<le> l \<and> l \<le> 1 \<and>
     0 < p \<and> p \<le> 1 \<and>
     calculate_HPPS pf s = Inr
       \<lparr> HPPS = max 0 (min 1 (p * (0.30 * a + 0.30 * e + 0.25 * c + 0.15 * l))),
         HPPS_percentage = max 0 (min 100 (p * (0.30 * a + 0.30 * e + 0.25 * c + 0.15 * l) * 100)),
         AD = max 0 (min 1 a), EAP = max 0 (min 1 e), CCL = max 0 (min 1 c),
         LA = max 0 (min 1 l),
         penalty_applied = (p < 1),
         penalty_multiplier = p,
         base_HPPS = max 0 (min 1 (0.30 * a + 0.30 * e + 0.25 * c + 0.15 * l)),
         warnings = w, errors = [] \<rparr>"
proof -
  obtain a w1 where a: "calculate_AD pf (CF_rating s) (LC_rating s) (CF_hard_problem_ratio s)
      (LC_medium_hard_ratio s) [] = (Inr a, w1)" "0 \<le> a" "a \<le> 1"
    using calculate_AD_returns by blast
  obtain e w2 where e: "calculate_EAP pf (real_projects_count s) (project_complexity_score s)
      (stack_diversity s) (code_quality_indicators s) w1 = (Inr e, w2)" "0 \<le> e" "e \<le> 1"
    using calculate_EAP_returns by blast
  obtain c w3 where c: "calculate_CCL pf (active_months s) (activity_frequency s)
      (rating_stability s) (longest_streak s) w2 = (Inr c, w3)" "0 \<le> c" "c \<le> 1"
    using calculate_CCL_returns by blast
  obtain l w4 where l: "calculate_LA pf (new_tech_usage s) (reusable_components s)
      (oss_engagement s) (cross_domain_work s) w3 = (Inr l, w4)" "0 \<le> l" "l \<le> 1"
    using calculate_LA_returns by blast
  obtain p w5 where p: "apply_min_dominance_penalty a e c 0.3 0.5 True w4 = (Inr p, w5)"
      "0 < p" "p \<le> 1"
    using penalty_returns[OF a(2) e(2) c(2)] by blast
  have "calculate_HPPS pf s = Inr
       \<lparr> HPPS = max 0 (min 1 (p * (0.30 * a + 0.30 * e + 0.25 * c + 0.15 * l))),
         HPPS_percentage = max 0 (min 100 (p * (0.30 * a + 0.30 * e + 0.25 * c + 0.15 * l) * 100)),
         AD = max 0 (min 1 a), EAP = max 0 (min 1 e), CCL = max 0 (min 1 c),
         LA = max 0 (min 1 l),
         penalty_applied = (p < 1),
         penalty_multiplier = p,
         base_HPPS = max 0 (min 1 (0.30 * a + 0.30 * e + 0.25 * c + 0.15 * l)),
         warnings = w5, errors = [] \<rparr>"
    unfolding calculate_HPPS_def calculate_HPPS_try_def
    using a(1) e(1) c(1) l(1) p(1)
    by (simp add: try_except_def and_then_def current_warnings_def ret_def Let_def)
  with a e c l p show ?thesis by blast
qed

subsection \<open>Two evaluations\<close>

text \<open>Laws of the computations, for evaluating a call step by step.\<close>

lemma and_then_ret: "and_then (ret x) f = f x"
  by (rule ext) (simp add: comp_defs)

lemma and_then_lift_Inr: "and_then (lift (Inr x)) f = f x"
  by (rule ext) (simp add: comp_defs)

lemma and_then_lift_Inl: "and_then (lift (Inl e)) f = lift (Inl e)"
  by (rule ext) (simp add: comp_defs)

lemma and_then_assoc: "and_then (and_then m f) g = and_then m (\<lambda>x. and_then (f x) g)"
  by (rule ext) (simp add: comp_defs split: prod.splits sum.splits)

lemma try_except_ret: "try_except (ret x) h = ret x"
  by (rule ext) (simp add: comp_defs)

lemma try_except_lift_Inl: "try_except (lift (Inl e)) h = h e"
  by (rule ext) (simp add: comp_defs)

lemma try_except_warn:
  "try_except (and_then (warn msg) k) h = and_then (warn msg) (\<lambda>u. try_except (k u) h)"
  by (rule ext) (simp add: comp_defs)

lemma run_ret: "ret x w = (Inr x, w)"
  by (simp add: ret_def)

lemma run_warn: "and_then (warn msg) k w = k () (w @ [msg])"
  by (simp add: comp_defs)

lemmas comp_laws = and_then_ret and_then_lift_Inr and_then_lift_Inl and_then_assoc
  try_except_ret try_except_lift_Inl try_except_warn

lemma small_int_fits: "\<bar>n\<bar> < 1000000 \<Longrightarrow> py_float_of_int n = Inr (of_int n)"
  by (simp add: py_float_of_int_def)


lemma main_AD:
  "calculate_AD no_parse (PInt 2100) PNone (PFloat (Fin 0.15)) (PFloat (Fin 0.25)) [] =
     (Inr (657 / 1000), [])"
  apply (simp add: calculate_AD_def get_best_rating_percentile_def validate_defs comp_laws small_int_fits cf_percentile_safe_def)
  apply (simp add: norm_defs run_ret run_warn small_int_fits)
  done

lemma main_EAP:
  "calculate_EAP no_parse (PInt 10) (PFloat (Fin 75)) (PFloat (Fin 70)) (PFloat (Fin 80)) [] =
     (Inr (211 / 400), [])"
  apply (simp add: calculate_EAP_def validate_defs comp_laws small_int_fits)
  apply (simp add: norm_defs run_ret run_warn small_int_fits)
  done

lemma main_CCL:
  "calculate_CCL no_parse (PInt 24) (PFloat (Fin 0.8)) (PFloat (Fin 0.85)) (PInt 120) [] =
     (Inr (4229 / 7300), [])"
  apply (simp add: calculate_CCL_def validate_defs comp_laws small_int_fits)
  apply (simp add: norm_defs run_ret run_warn small_int_fits)
  done

lemma main_LA:
  "calculate_LA no_parse (PFloat (Fin 70)) (PFloat (Fin 60)) (PFloat (Fin 50)) (PFloat (Fin 65)) [] =
     (Inr (5 / 8), [])"
  apply (simp add: calculate_LA_def validate_defs comp_laws)
  apply (simp add: norm_defs run_ret run_warn small_int_fits)
  done

lemma main_penalty:
  "apply_min_dominance_penalty (657 / 1000) (211 / 400) (4229 / 7300) 0.3 0.5 True [] = (Inr 1, [])"
  apply (simp add: apply_min_dominance_penalty_def comp_laws)
  apply (simp add: norm_defs run_ret run_warn small_int_fits)
  done

lemma main_example_value:
  "calculate_HPPS no_parse main_example =
     Inr \<lparr> HPPS = 27098 / 45625, HPPS_percentage = 108392 / 1825,
           AD = 657 / 1000, EAP = 211 / 400, CCL = 4229 / 7300, LA = 5 / 8,
           penalty_applied = False, penalty_multiplier = 1,
           base_HPPS = 27098 / 45625, warnings = [], errors = [] \<rparr>"
  using main_AD main_EAP main_CCL main_LA main_penalty
  by (simp add: main_example_def calculate_HPPS_def calculate_HPPS_try_def and_then_def
      try_except_def current_warnings_def ret_def)







subsection \<open>C1: no exception leaves the aggregator\<close>




subsection \<open>C3: bounds\<close>

text \<open>
  C3. For every input to \<^verbatim>\<open>calculate_HPPS\<close>, the returned AD, EAP, CCL, LA, base_HPPS
  and HPPS lie in \<open>[0, 1]\<close>, HPPS_percentage lies in \<open>[0, 100]\<close> and penalty_multiplier
  lies in \<open>(0, 1]\<close>.
\<close>

theorem calculate_HPPS_bounds:
  "\<exists>cs. calculate_HPPS pf s = Inr cs \<and>
     0 \<le> AD cs \<and> AD cs \<le> 1 \<and> 0 \<le> EAP cs \<and> EAP cs \<le> 1 \<and>
     0 \<le> CCL cs \<and> CCL cs \<le> 1 \<and> 0 \<le> LA cs \<and> LA cs \<le> 1 \<and>
     0 \<le> base_HPPS cs \<and> base_HPPS cs \<le> 1 \<and> 0 \<le> HPPS cs \<and> HPPS cs \<le> 1 \<and>
     0 \<le> HPPS_percentage cs \<and> HPPS_percentage cs \<le> 100 \<and>
     0 < penalty_multiplier cs \<and> penalty_multiplier cs \<le> 1"
  using calculate_HPPS_shape[of pf s] by auto

theorem calculate_HPPS_bounds_witness:
  "\<exists>cs. calculate_HPPS no_parse main_example = Inr cs \<and>
     0 \<le> AD cs \<and> AD cs \<le> 1 \<and> 0 \<le> EAP cs \<and> EAP cs \<le> 1 \<and>
     0 \<le> CCL cs \<and> CCL cs \<le> 1 \<and> 0 \<le> LA cs \<and> LA cs \<le> 1 \<and>
     0 \<le> base_HPPS cs \<and> base_HPPS cs \<le> 1 \<and> 0 \<le> HPPS cs \<and> HPPS cs \<le> 1 \<and>
     0 \<le> HPPS_percentage cs \<and> HPPS_percentage cs \<le> 100 \<and>
     0 < penalty_multiplier cs \<and> penalty_multiplier cs \<le> 1"
  by (rule calculate_HPPS_bounds)

subsection \<open>C4: consistency of the fields\<close>

lemma percentage_clamp: "max 0 (min 100 (x * 100)) = max 0 (min 1 x) * (100::real)"
  by (simp add: max_def min_def)

text \<open>
  C4. Every score returned by \<^verbatim>\<open>calculate_HPPS\<close> has
  \<open>HPPS_percentage = HPPS * 100\<close> and \<open>penalty_applied = (penalty_multiplier < 1)\<close>,
  and so has the default of the error path, for every exception and warnings list.
\<close>

theorem calculate_HPPS_consistent:
  "(\<exists>cs. calculate_HPPS pf s = Inr cs \<and>
      HPPS_percentage cs = HPPS cs * 100 \<and>
      penalty_applied cs = (penalty_multiplier cs < 1))
   \<and> (\<exists>cs. fst (calculate_HPPS_except e w) = Inr cs \<and>
      HPPS_percentage cs = HPPS cs * 100 \<and>
      penalty_applied cs = (penalty_multiplier cs < 1))"
proof -
  have "\<exists>cs. calculate_HPPS pf s = Inr cs \<and>
      HPPS_percentage cs = HPPS cs * 100 \<and>
      penalty_applied cs = (penalty_multiplier cs < 1)"
    using calculate_HPPS_shape[of pf s] percentage_clamp by auto
  moreover have "\<exists>cs. fst (calculate_HPPS_except e w) = Inr cs \<and>
      HPPS_percentage cs = HPPS cs * 100 \<and>
      penalty_applied cs = (penalty_multiplier cs < 1)"
    by (simp add: calculate_HPPS_except_def and_then_def current_warnings_def ret_def)
  ultimately show ?thesis by blast
qed

theorem calculate_HPPS_consistent_witness:
  "(\<exists>cs. calculate_HPPS no_parse main_example = Inr cs \<and>
      HPPS_percentage cs = HPPS cs * 100 \<and>
      penalty_applied cs = (penalty_multiplier cs < 1))
   \<and> (\<exists>cs. fst (calculate_HPPS_except OverflowError []) = Inr cs \<and>
      HPPS_percentage cs = HPPS cs * 100 \<and>
      penalty_applied cs = (penalty_multiplier cs < 1))"
  by (rule calculate_HPPS_consistent)

section \<open>C7: the rating validator\<close>





text \<open>
  The validator of the same name in \<^verbatim>\<open>hpps_improvements.py\<close>, which nothing imports,
  does clamp a negative rating to 0 with a warning, and raises on a string.
\<close>

lemma validate_rating_improved_negative:
  "validate_rating_improved (PFloat (Fin (- 5))) ''codeforces'' [] =
     (Inr (Some (Fin 0)), [RatingNegativeClamped ''codeforces'' (PFloat (Fin (- 5)))])"
  by (simp add: validate_rating_improved_def comp_defs)

lemma validate_rating_improved_string:
  "validate_rating_improved (PStr s) platform w = (Inl ValidationError, w)"
  by (simp add: validate_rating_improved_def comp_defs)

section \<open>C10: scale detection is not monotonic\<close>

text \<open>
  C10. \<^verbatim>\<open>normalize_ai_score\<close> with the threshold 10.0 (the default in \<^verbatim>\<open>function.py\<close>,
  the default configuration in \<^verbatim>\<open>hpps_improvements.py\<close>) sends every input in
  \<open>(1, 10]\<close> to 1 and every input in \<open>(10, 100]\<close> to a hundredth of itself; 10 goes to
  1, 11 goes to 0.11, so there are \<open>a < b\<close> with a larger result at \<open>a\<close>.
\<close>

theorem normalize_ai_score_not_monotonic:
  "(\<forall>v. 1 < v \<and> v \<le> 10 \<longrightarrow> normalize_ai_score v 10 = 1)
   \<and> (\<forall>v. 10 < v \<and> v \<le> 100 \<longrightarrow> normalize_ai_score v 10 = v / 100)
   \<and> normalize_ai_score 10 10 = 1
   \<and> normalize_ai_score 11 10 = 0.11
   \<and> (\<exists>a b. a < b \<and> normalize_ai_score a 10 > normalize_ai_score b 10)
   \<and> (\<forall>v. 1 < v \<and> v \<le> 10 \<longrightarrow> normalize_ai_score_improved v default_config None = Inr 1)
   \<and> (\<forall>v. 10 < v \<and> v \<le> 100 \<longrightarrow>
         normalize_ai_score_improved v default_config None = Inr (v / 100))
   \<and> normalize_ai_score_improved 10 default_config None = Inr 1
   \<and> normalize_ai_score_improved 11 default_config None = Inr 0.11"
proof -
  have low: "normalize_ai_score v 10 = 1" if "1 < v" "v \<le> 10" for v
    using that by (simp add: normalize_ai_score_def norm_ratio_def)
  have high: "normalize_ai_score v 10 = v / 100" if "10 < v" "v \<le> 100" for v
    using that by (simp add: norm_defs)
  have ten: "normalize_ai_score 10 10 = 1"
    by (simp add: low)
  have eleven: "normalize_ai_score 11 10 = 0.11"
    by (simp add: high)
  have "(10::real) < 11 \<and> normalize_ai_score 10 10 > normalize_ai_score 11 10"
    by (simp add: ten eleven)
  then have ex: "\<exists>a b. a < b \<and> normalize_ai_score a 10 > normalize_ai_score b 10"
    by blast
  have low': "normalize_ai_score_improved v default_config None = Inr 1"
    if "1 < v" "v \<le> 10" for v
    using that
    by (simp add: normalize_ai_score_improved_def default_config_def norm_ratio_improved_def)
  have high': "normalize_ai_score_improved v default_config None = Inr (v / 100)"
    if "10 < v" "v \<le> 100" for v
    using that
    by (simp add: normalize_ai_score_improved_def default_config_def
        norm_percentile_improved_def norm_improved_def)
  have ten': "normalize_ai_score_improved 10 default_config None = Inr 1"
    by (simp add: low')
  have eleven': "normalize_ai_score_improved 11 default_config None = Inr 0.11"
    using high'[of 11] by simp
  show ?thesis
    using low high ten eleven ex low' high' ten' eleven' by blast
qed

theorem normalize_ai_score_not_monotonic_witness:
  "normalize_ai_score 5 10 = 1 \<and> normalize_ai_score 50 10 = 0.5
   \<and> normalize_ai_score 10 10 > normalize_ai_score 11 10"
proof -
  have low: "\<forall>v. 1 < v \<and> v \<le> 10 \<longrightarrow> normalize_ai_score v 10 = 1"
    using normalize_ai_score_not_monotonic by blast
  have high: "\<forall>v. 10 < v \<and> v \<le> 100 \<longrightarrow> normalize_ai_score v 10 = v / 100"
    using normalize_ai_score_not_monotonic by blast
  have a: "normalize_ai_score 5 10 = 1"
    using low[rule_format, of 5] by simp
  have b: "normalize_ai_score 50 10 = 50 / 100"
    using high[rule_format, of 50] by simp
  have c: "normalize_ai_score 10 10 = 1"
    using low[rule_format, of 10] by simp
  have d: "normalize_ai_score 11 10 = 11 / 100"
    using high[rule_format, of 11] by simp
  show ?thesis unfolding a b c d by simp
qed

section \<open>Keyword matching\<close>

lemma split_keywords_fst:
  "fst (split_keywords S kws) = filter (\<lambda>kw. check_keyword_match kw S) kws"
  by (induction kws) (auto split: prod.splits)

lemma split_keywords_snd:
  "snd (split_keywords S kws) = filter (\<lambda>kw. \<not> check_keyword_match kw S) kws"
  by (induction kws) (auto split: prod.splits)

lemma split_keywords_length:
  "split_keywords S kws = (matched, unmatched) \<Longrightarrow> length matched \<le> length kws"
  using split_keywords_fst[of S kws] by simp

lemma ratio_clamp:
  "m \<le> n \<Longrightarrow> 0 < n \<Longrightarrow> max 0 (min 1 (real m / real n)) = real m / real n"
  by (simp add: max_def min_def)

text \<open>
  A keyword matches when it is in the candidate's set, or when it is a key of
  \<^verbatim>\<open>KEYWORD_MAP\<close> and one of its categories is in the set.
\<close>

lemma check_keyword_match_iff:
  "check_keyword_match kw S \<longleftrightarrow>
     kw \<in> S \<or> (\<exists>cats. map_of KEYWORD_MAP kw = Some cats \<and> set cats \<inter> S \<noteq> {})"
  by (auto simp: check_keyword_match_def list_ex_iff split: option.splits)

lemma scenario_c_value:
  "calculate_keyword_match scenario_c_student [''python'', ''fastapi'', ''backend''] [''python''] =
     Some \<lparr> matched_keywords = [''python'', ''fastapi'', ''backend''],
            unmatched_keywords = [], total_keywords = 3, match_pct = 1,
            mandatory_matched = True, mandatory_matched_keywords = [''python''],
            mandatory_unmatched_keywords = [], mandatory_count = 1,
            mandatory_matched_count = 1 \<rparr>"
  by code_simp

subsection \<open>C5: scenario C\<close>

text \<open>
  C5 as stated fails. For the job keywords python, fastapi, backend, the mandatory
  keyword python and the tags python and backend, the matched list is not
  [python, backend], the unmatched list is not [fastapi] and the match percentage is
  not 2/3: \<^verbatim>\<open>fastapi\<close> is a key of \<^verbatim>\<open>KEYWORD_MAP\<close> with the categories backend and
  python, both in the candidate's set, so it matches.
\<close>

theorem scenario_c_fastapi_matches:
  "map_option matched_keywords
     (calculate_keyword_match scenario_c_student [''python'', ''fastapi'', ''backend''] [''python''])
     \<noteq> Some [''python'', ''backend'']
   \<and> map_option unmatched_keywords
     (calculate_keyword_match scenario_c_student [''python'', ''fastapi'', ''backend''] [''python''])
     \<noteq> Some [''fastapi'']
   \<and> map_option match_pct
     (calculate_keyword_match scenario_c_student [''python'', ''fastapi'', ''backend''] [''python''])
     = Some 1"
  by (simp add: scenario_c_value)

text \<open>
  C5, amended. For the job keywords python, fastapi, backend, the mandatory keyword
  python and a candidate whose normalized tag set is python, backend, the match result
  has matched = [python, fastapi, backend], unmatched = [], match_pct = 1.0 and
  mandatory_matched = true; a job keyword counts as matched if it is in the
  candidate's set or it is a key of the static keyword-to-category table whose
  categories intersect that set.
\<close>

theorem scenario_c_match:
  "calculate_keyword_match scenario_c_student [''python'', ''fastapi'', ''backend''] [''python''] =
     Some \<lparr> matched_keywords = [''python'', ''fastapi'', ''backend''],
            unmatched_keywords = [], total_keywords = 3, match_pct = 1,
            mandatory_matched = True, mandatory_matched_keywords = [''python''],
            mandatory_unmatched_keywords = [], mandatory_count = 1,
            mandatory_matched_count = 1 \<rparr>
   \<and> (\<forall>kw S. check_keyword_match kw S \<longleftrightarrow>
         kw \<in> S \<or> (\<exists>cats. map_of KEYWORD_MAP kw = Some cats \<and> set cats \<inter> S \<noteq> {}))"
  using scenario_c_value check_keyword_match_iff by blast

lemma fastapi_categories: "map_of KEYWORD_MAP ''fastapi'' = Some [''backend'', ''python'']"
  by code_simp

theorem scenario_c_match_witness:
  "check_keyword_match ''fastapi'' {''python'', ''backend''}
   \<and> check_keyword_match ''python'' {''python'', ''backend''}
   \<and> \<not> check_keyword_match ''fastapi'' {''java''}"
proof -
  have iff: "\<And>kw S. check_keyword_match kw S \<longleftrightarrow>
         kw \<in> S \<or> (\<exists>cats. map_of KEYWORD_MAP kw = Some cats \<and> set cats \<inter> S \<noteq> {})"
    using scenario_c_match by blast
  have a: "check_keyword_match ''fastapi'' {''python'', ''backend''}"
    unfolding iff fastapi_categories by simp
  have b: "check_keyword_match ''python'' {''python'', ''backend''}"
    unfolding iff by simp
  have c: "\<not> check_keyword_match ''fastapi'' {''java''}"
    unfolding iff fastapi_categories by simp
  show ?thesis using a b c by blast
qed

subsection \<open>C6: the match percentage\<close>

text \<open>
  C6 as stated fails: for an empty keyword list \<^verbatim>\<open>calculate_keyword_match\<close> returns
  \<^verbatim>\<open>None\<close>, not a match result with \<open>match_pct = 0.0\<close>.
\<close>

theorem empty_keywords_no_result:
  "calculate_keyword_match scenario_c_student [] [''python''] = None"
  by (simp add: calculate_keyword_match_def scenario_c_student_def)

text \<open>
  C6, amended. For every non-empty candidate profile and every non-empty job keyword
  list, \<^verbatim>\<open>calculate_keyword_match\<close> produces a match result in which
  \<open>match_pct = len(matched) / len(keywords)\<close>; when the keyword list is empty, or the
  profile is, it returns \<^verbatim>\<open>None\<close> and no match result.
\<close>

theorem match_pct_is_ratio:
  "(student \<noteq> [] \<and> keywords \<noteq> [] \<longrightarrow>
      (\<exists>r. calculate_keyword_match student keywords mandatory = Some r \<and>
           match_pct r = real (length (matched_keywords r)) / real (length keywords) \<and>
           total_keywords r = length keywords))
   \<and> (keywords = [] \<longrightarrow> calculate_keyword_match student keywords mandatory = None)
   \<and> (student = [] \<longrightarrow> calculate_keyword_match student keywords mandatory = None)"
proof -
  have "\<exists>r. calculate_keyword_match student keywords mandatory = Some r \<and>
           match_pct r = real (length (matched_keywords r)) / real (length keywords) \<and>
           total_keywords r = length keywords"
    if ne: "student \<noteq> []" "keywords \<noteq> []"
  proof -
    obtain matched unmatched where sp:
      "split_keywords
         (set (normalize_student_field (get_field student ''skills'') @
               normalize_student_field (get_field student ''tags'') @
               normalize_student_field (get_field student ''languages'')))
         keywords = (matched, unmatched)"
      by (cases "split_keywords
         (set (normalize_student_field (get_field student ''skills'') @
               normalize_student_field (get_field student ''tags'') @
               normalize_student_field (get_field student ''languages'')))
         keywords") blast
    have le: "length matched \<le> length keywords"
      using sp by (rule split_keywords_length)
    have pos: "0 < length keywords" using ne(2) by simp
    show ?thesis
      unfolding calculate_keyword_match_def Let_def sp
      using ne ratio_clamp[OF le pos] by (simp split: prod.splits)
  qed
  moreover have "calculate_keyword_match student [] mandatory = None"
    by (simp add: calculate_keyword_match_def)
  moreover have "calculate_keyword_match [] keywords mandatory = None"
    by (simp add: calculate_keyword_match_def)
  ultimately show ?thesis by blast
qed

theorem match_pct_is_ratio_witness:
  "\<exists>r. calculate_keyword_match scenario_c_student [''python'', ''rust''] [] = Some r \<and>
        match_pct r = real (length (matched_keywords r)) / real (length [''python'', ''rust'']) \<and>
        total_keywords r = length [''python'', ''rust'']"
proof -
  have "scenario_c_student \<noteq> [] \<and> [''python'', ''rust''] \<noteq> []"
    by (simp add: scenario_c_student_def)
  then show ?thesis
    using match_pct_is_ratio[of scenario_c_student "[''python'', ''rust'']" "[]"] by blast
qed

section \<open>Dual ranking\<close>







subsection \<open>The coercion loop\<close>



subsection \<open>The stable descending sort\<close>





subsection \<open>The ranking loop\<close>





subsection \<open>C8: the two views\<close>








subsection \<open>C9: what the call does to its input\<close>









end
